theory Spec2Isabelle
  imports Complex_Main
begin

section \<open>Data model\<close>

text \<open>
  The development embeds the Hierarchical Actor Critic agent of the tutorial
  \<^verbatim>\<open>3. Implementing a Hierarchical RL Graph\<close>: the classes
  \<^verbatim>\<open>HACDDPGAlgorithmParameters\<close>, \<^verbatim>\<open>HACDDPGAgentParameters\<close>,
  \<^verbatim>\<open>HACDDPGAgent\<close> and the preset that configures a two-level hierarchy.

  Conventions.
  \<^item> Python numbers (ints and floats alike) are rationals. The agent's own code performs no
    arithmetic on them other than one unary minus; the preset's distance function subtracts and
    takes absolute values.
  \<^item> A one-dimensional numpy array is a list of numbers.
  \<^item> A state (a Python dict from keys to arrays) is a map from strings to vectors.
  \<^item> A parameters object is its attribute dictionary, restricted to the numeric attributes:
    reading an attribute that is absent raises \<^verbatim>\<open>AttributeError\<close>.
  \<^item> Every raise is a value \<open>Inl e\<close> of the result type.
\<close>

type_synonym vec = "rat list"

type_synonym state_dict = "string \<rightharpoonup> vec"

type_synonym attrs = "string \<rightharpoonup> rat"

datatype error =
    AttributeError string
  | KeyError string
  | IndexError
  | GoalSpaceMismatchError

text \<open>
  \<^verbatim>\<open>RunPhase\<close> of \<^verbatim>\<open>rl_coach.core_types\<close>: the tutorial names the phases \<open>TRAIN\<close> and
  \<open>TEST\<close>, and its schedule has a heatup before them.
\<close>

datatype RunPhase = HEATUP | TRAIN | TEST

record transition =
  state :: state_dict
  action :: vec
  reward :: rat
  next_state :: state_dict
  game_over :: bool

subsection \<open>The goal space\<close>

record ReachingGoal =
  default_reward :: rat
  goal_reaching_reward :: rat
  distance_from_goal_threshold :: vec

record GoalsSpace =
  goal_name :: string
  reward_type :: ReachingGoal
  distance_metric :: "vec \<Rightarrow> vec \<Rightarrow> error + vec"

text \<open>
  Modelled from the spec: the lookup of the achieved value in a state. The classes
  \<^verbatim>\<open>GoalsSpace\<close> and \<^verbatim>\<open>ReachingGoal\<close> come from \<^verbatim>\<open>rl_coach.spaces\<close>, which the tutorial
  imports and calls but does not contain. A state is a mapping that holds the achieved value
  under the goal space's key; a state without the key has nothing to measure.
\<close>

definition goal_from_state :: "GoalsSpace \<Rightarrow> state_dict \<Rightarrow> error + vec" where
  "goal_from_state gs st =
     (case st (goal_name gs) of
        None \<Rightarrow> Inl (KeyError (goal_name gs))
      | Some state_value \<Rightarrow> Inr state_value)"

text \<open>
  Modelled from the spec: \<^verbatim>\<open>GoalsSpace.distance_from_goal\<close>, absent from the tutorial. The
  configured distance function is applied to the goal and to the achieved value of the state.
\<close>

definition distance_from_goal :: "GoalsSpace \<Rightarrow> vec \<Rightarrow> state_dict \<Rightarrow> error + vec" where
  "distance_from_goal gs goal st =
     (case goal_from_state gs st of
        Inl e \<Rightarrow> Inl e
      | Inr state_value \<Rightarrow> distance_metric gs goal state_value)"

text \<open>
  Modelled from the spec: \<^verbatim>\<open>GoalsSpace.get_reward_for_goal_and_state\<close> of
  \<^verbatim>\<open>rl_coach.spaces\<close> (the spec's \<^verbatim>\<open>reward_for\<close>), absent from the tutorial.
  \<^verbatim>\<open>reached = distance_fn(goal, achieved_state) <= reaching_threshold\<close>, taken per dimension,
  and \<^verbatim>\<open>reward = success_reward if reached else default_reward\<close>. A distance whose shape
  differs from the threshold's is the spec's \<^verbatim>\<open>GoalSpaceMismatchError\<close>.
\<close>

definition get_reward_for_goal_and_state ::
  "GoalsSpace \<Rightarrow> vec \<Rightarrow> state_dict \<Rightarrow> error + (rat \<times> bool)" where
  "get_reward_for_goal_and_state gs goal st =
     (case distance_from_goal gs goal st of
        Inl e \<Rightarrow> Inl e
      | Inr d \<Rightarrow>
          (if length d = length (distance_from_goal_threshold (reward_type gs)) then
             (if list_all2 (\<le>) d (distance_from_goal_threshold (reward_type gs))
              then Inr (goal_reaching_reward (reward_type gs), True)
              else Inr (default_reward (reward_type gs), False))
           else Inl GoalSpaceMismatchError))"

subsection \<open>Graph manager and agent\<close>

record graph_manager =
  should_test_current_sub_goal :: bool

datatype HindsightGoalSelectionMethod = Future | Final | Episode | Random

record memory_parameters =
  max_size :: nat
  hindsight_transitions_per_regular_transition :: nat
  hindsight_goal_selection_method :: HindsightGoalSelectionMethod
  memory_goals_space :: GoalsSpace

record agent_parameters =
  algorithm :: attrs
  memory :: memory_parameters
  is_a_highest_level_agent :: bool
  is_a_lowest_level_agent :: bool

text \<open>
  The attributes of \<^verbatim>\<open>HACDDPGAgent\<close> that its methods read or write. The field
  \<open>exploration_policy_phase\<close> is the phase last given to
  \<^verbatim>\<open>self.exploration_policy.change_phase\<close>; \<open>distance_from_goal_signal\<close> is the list of
  samples added to the signal \<^verbatim>\<open>self.distance_from_goal\<close>; \<open>spaces_goal\<close> is
  \<^verbatim>\<open>self.spaces.goal\<close>, which \<^verbatim>\<open>set_environment_parameters\<close> gives to every level (the
  highest level's is its action space).
\<close>

record agent =
  ap :: agent_parameters
  sub_goal_testing_rate :: rat
  phase :: RunPhase
  exploration_policy_phase :: RunPhase
  current_hrl_goal :: vec
  distance_from_goal_signal :: "vec list"
  spaces_goal :: GoalsSpace

section \<open>The parameters\<close>

text \<open>
  \<^verbatim>\<open>HACDDPGAlgorithmParameters.__init__\<close>: the attributes that
  \<^verbatim>\<open>DDPGAlgorithmParameters.__init__\<close> sets (a class of \<^verbatim>\<open>rl_coach\<close>, taken as the
  argument), then the two of the subclass.
\<close>

definition HACDDPGAlgorithmParameters :: "attrs \<Rightarrow> attrs" where
  "HACDDPGAlgorithmParameters ddpg_algorithm_parameters =
     ddpg_algorithm_parameters(''sub_goal_testing_rate'' \<mapsto> 1 / 2, ''time_limit'' \<mapsto> 40)"

text \<open>
  \<^verbatim>\<open>HACDDPGAgentParameters.__init__\<close>: what \<^verbatim>\<open>DDPGAgentParameters.__init__\<close> builds (the
  first argument), with \<^verbatim>\<open>self.algorithm = DDPGAlgorithmParameters()\<close> (the second).
\<close>

definition HACDDPGAgentParameters :: "agent_parameters \<Rightarrow> attrs \<Rightarrow> agent_parameters" where
  "HACDDPGAgentParameters ddpg_agent_parameters ddpg_algorithm_parameters =
     ddpg_agent_parameters\<lparr>algorithm := ddpg_algorithm_parameters\<rparr>"

section \<open>The agent\<close>

subsection \<open>Construction\<close>

text \<open>
  \<^verbatim>\<open>HACDDPGAgent.__init__\<close>. The first argument is the object as
  \<^verbatim>\<open>DDPGAgent.__init__\<close> leaves its other attributes; \<^verbatim>\<open>self.ap\<close> is the parameters
  object given. Reading \<^verbatim>\<open>self.ap.algorithm.sub_goal_testing_rate\<close> raises when the
  attribute is absent. (The attribute \<^verbatim>\<open>self.graph_manager\<close>, set to \<^verbatim>\<open>None\<close> and never
  read, is left out.)
\<close>

definition HACDDPGAgent_init :: "agent \<Rightarrow> agent_parameters \<Rightarrow> error + agent" where
  "HACDDPGAgent_init ddpg_agent agent_parameters =
     (let self = ddpg_agent\<lparr>ap := agent_parameters\<rparr>
      in case algorithm (ap self) ''sub_goal_testing_rate'' of
           None \<Rightarrow> Inl (AttributeError ''sub_goal_testing_rate'')
         | Some rate \<Rightarrow> Inr (self\<lparr>sub_goal_testing_rate := rate\<rparr>))"

subsection \<open>Choosing an action\<close>

text \<open>
  \<^verbatim>\<open>HACDDPGAgent.choose_action\<close>. \<open>rand\<close> is the value \<^verbatim>\<open>np.random.rand()\<close> returns
  when it is called, which only the highest level does. \<open>super_choose_action\<close> stands for
  \<^verbatim>\<open>DDPGAgent.choose_action\<close>, the policy interface
  \<^verbatim>\<open>choose_action(state, phase) -> action\<close>: it is given the phase the exploration policy is
  in when it is called. The method returns the graph manager and the agent as it leaves them,
  and the action.
\<close>

definition choose_action ::
  "(RunPhase \<Rightarrow> state_dict \<Rightarrow> 'a) \<Rightarrow> rat \<Rightarrow> graph_manager \<Rightarrow> agent \<Rightarrow> state_dict
     \<Rightarrow> graph_manager \<times> agent \<times> 'a" where
  "choose_action super_choose_action rand gm self curr_state =
     (let gm1 = (if is_a_highest_level_agent (ap self)
                 then gm\<lparr>should_test_current_sub_goal := rand < sub_goal_testing_rate self\<rparr>
                 else gm);
          self1 = (if phase self = TRAIN then
                     (if should_test_current_sub_goal gm1
                      then self\<lparr>exploration_policy_phase := TEST\<rparr>
                      else self\<lparr>exploration_policy_phase := phase self\<rparr>)
                   else self);
          action_info = super_choose_action (exploration_policy_phase self1) curr_state
      in (gm1, self1, action_info))"

subsection \<open>Reward shaping\<close>

text \<open>
  \<^verbatim>\<open>HACDDPGAgent.update_transition_before_adding_to_replay_buffer\<close>. The graph manager is
  only read. The method mutates the transition in place and adds a sample to the agent's
  signal; the model returns the agent and the transition as they are when the method returns.
  When a call inside it raises, the result is the error; what the method has written by then
  is given by \<open>update_transition_in_place\<close> below.
\<close>

definition update_transition_before_adding_to_replay_buffer ::
  "graph_manager \<Rightarrow> agent \<Rightarrow> transition \<Rightarrow> error + (agent \<times> transition)" where
  "update_transition_before_adding_to_replay_buffer gm self tr =
     (case
        (if \<not> is_a_highest_level_agent (ap self) then
           (let t1 = tr\<lparr>state := (state tr)(''desired_goal'' \<mapsto> current_hrl_goal self)\<rparr>;
                t2 = t1\<lparr>next_state := (next_state t1)(''desired_goal'' \<mapsto> current_hrl_goal self)\<rparr>
            in case distance_from_goal (spaces_goal self) (current_hrl_goal self) (next_state t2) of
                 Inl e \<Rightarrow> Inl e
               | Inr d \<Rightarrow>
                   (let self1 = self\<lparr>distance_from_goal_signal :=
                                       distance_from_goal_signal self @ [d]\<rparr>
                    in case get_reward_for_goal_and_state (spaces_goal self1)
                              (current_hrl_goal self1) (next_state t2) of
                         Inl e \<Rightarrow> Inl e
                       | Inr (goal_reward, sub_goal_reached) \<Rightarrow>
                           Inr (self1, t2\<lparr>reward := goal_reward,
                                           game_over := game_over t2 \<or> sub_goal_reached\<rparr>)))
         else Inr (self, tr))
      of
        Inl e \<Rightarrow> Inl e
      | Inr (self1, t3) \<Rightarrow>
          (if \<not> is_a_lowest_level_agent (ap self1) \<and> should_test_current_sub_goal gm then
             (case get_reward_for_goal_and_state (spaces_goal self1) (action t3) (next_state t3) of
                Inl e \<Rightarrow> Inl e
              | Inr (_, sub_goal_reached) \<Rightarrow>
                  (let sub_goal_is_missed = \<not> sub_goal_reached
                   in if sub_goal_is_missed then
                        (case algorithm (ap self1) ''time_limit'' of
                           None \<Rightarrow> Inl (AttributeError ''time_limit'')
                         | Some time_limit \<Rightarrow> Inr (self1, t3\<lparr>reward := - time_limit\<rparr>))
                      else Inr (self1, t3)))
           else Inr (self1, t3)))"

text \<open>
  The same method, with everything it can reach as it is when the method exits, by a return or
  by a raise: the graph manager, the agent and the transition, and the error raised if there is
  one. The writes happen in the order of the source: the goal is attached to both states
  before the distance is computed; the sample is added once the distance is there; reward and
  terminal flag are written once the goal reward is there; the right-hand side
  \<^verbatim>\<open>-self.ap.algorithm.time_limit\<close> is read before the reward is written.
\<close>

definition update_transition_in_place ::
  "graph_manager \<Rightarrow> agent \<Rightarrow> transition
     \<Rightarrow> (graph_manager \<times> agent \<times> transition) \<times> error option" where
  "update_transition_in_place gm self tr =
     (case
        (if \<not> is_a_highest_level_agent (ap self) then
           (let t1 = tr\<lparr>state := (state tr)(''desired_goal'' \<mapsto> current_hrl_goal self)\<rparr>;
                t2 = t1\<lparr>next_state := (next_state t1)(''desired_goal'' \<mapsto> current_hrl_goal self)\<rparr>
            in case distance_from_goal (spaces_goal self) (current_hrl_goal self) (next_state t2) of
                 Inl e \<Rightarrow> ((self, t2), Some e)
               | Inr d \<Rightarrow>
                   (let self1 = self\<lparr>distance_from_goal_signal :=
                                       distance_from_goal_signal self @ [d]\<rparr>
                    in case get_reward_for_goal_and_state (spaces_goal self1)
                              (current_hrl_goal self1) (next_state t2) of
                         Inl e \<Rightarrow> ((self1, t2), Some e)
                       | Inr (goal_reward, sub_goal_reached) \<Rightarrow>
                           ((self1, t2\<lparr>reward := goal_reward,
                                        game_over := game_over t2 \<or> sub_goal_reached\<rparr>), None)))
         else ((self, tr), None))
      of
        ((self1, t3), Some e) \<Rightarrow> ((gm, self1, t3), Some e)
      | ((self1, t3), None) \<Rightarrow>
          (if \<not> is_a_lowest_level_agent (ap self1) \<and> should_test_current_sub_goal gm then
             (case get_reward_for_goal_and_state (spaces_goal self1) (action t3) (next_state t3) of
                Inl e \<Rightarrow> ((gm, self1, t3), Some e)
              | Inr (_, sub_goal_reached) \<Rightarrow>
                  (let sub_goal_is_missed = \<not> sub_goal_reached
                   in if sub_goal_is_missed then
                        (case algorithm (ap self1) ''time_limit'' of
                           None \<Rightarrow> ((gm, self1, t3), Some (AttributeError ''time_limit''))
                         | Some time_limit \<Rightarrow> ((gm, self1, t3\<lparr>reward := - time_limit\<rparr>), None))
                      else ((gm, self1, t3), None)))
           else ((gm, self1, t3), None)))"

section \<open>The preset\<close>

text \<open>
  The anonymous distance function of the preset, \<^verbatim>\<open>lambda goal, state: np.abs(goal - state)\<close>.
  Subtracting two one-dimensional arrays follows numpy's broadcasting: equal lengths subtract
  pointwise, an array of length one is stretched over the other, and any other pair of shapes
  raises (the spec's \<^verbatim>\<open>GoalSpaceMismatchError\<close>). The arithmetic is exact: the rounding of
  a float64 subtraction is not modelled, so the function stands for the code only where the
  distance is not within a rounding error of the threshold (for the goal \<open>0.3\<close> and the
  state \<open>0.375\<close> the code computes \<open>0.07500000000000001\<close>, above the threshold \<open>0.075\<close>,
  and the model \<open>3/40\<close>, within it). Nothing below is evaluated at such an input.
\<close>

definition np_subtract :: "vec \<Rightarrow> vec \<Rightarrow> error + vec" where
  "np_subtract a b =
     (if length a = length b then Inr (map2 (-) a b)
      else if length a = 1 then Inr (map (\<lambda>y. hd a - y) b)
      else if length b = 1 then Inr (map (\<lambda>x. x - hd b) a)
      else Inl GoalSpaceMismatchError)"

definition raw_L1_distance :: "vec \<Rightarrow> vec \<Rightarrow> error + vec" where
  "raw_L1_distance goal st =
     (case np_subtract goal st of
        Inl e \<Rightarrow> Inl e
      | Inr diff \<Rightarrow> Inr (map abs diff))"

definition time_limit :: int where
  "time_limit = 1000"

definition polar_coordinates :: bool where
  "polar_coordinates = False"

definition preset_distance_from_goal_threshold :: vec where
  "preset_distance_from_goal_threshold = [75 / 1000, 75 / 1000, 75 / 100]"

definition goals_space :: GoalsSpace where
  "goals_space =
     \<lparr>goal_name = ''achieved_goal'',
      reward_type = \<lparr>default_reward = - 1, goal_reaching_reward = 0,
                     distance_from_goal_threshold = preset_distance_from_goal_threshold\<rparr>,
      distance_metric = raw_L1_distance\<rparr>"

text \<open>
  The parameters of the two agents. \<^verbatim>\<open>DDPGAgentParameters()\<close> and
  \<^verbatim>\<open>DDPGAlgorithmParameters()\<close> are the arguments; of the attributes the preset then sets, the
  memory and the numeric algorithm attribute are kept (exploration, networks, the step-count
  objects and the action space of the lower level are not read by the agent's methods above).
  The size of a memory is its number of transitions.
\<close>

definition top_agent_params :: "agent_parameters \<Rightarrow> attrs \<Rightarrow> agent_parameters" where
  "top_agent_params ddpg_agent_parameters ddpg_algorithm_parameters =
     (let p0 = HACDDPGAgentParameters ddpg_agent_parameters ddpg_algorithm_parameters;
          p1 = p0\<lparr>memory := \<lparr>max_size = 10000000,
                                hindsight_transitions_per_regular_transition = 3,
                                hindsight_goal_selection_method = Future,
                                memory_goals_space = goals_space\<rparr>\<rparr>
      in p1\<lparr>algorithm := (algorithm p1)(''num_consecutive_training_steps'' \<mapsto> 40)\<rparr>)"

definition bottom_agent_params :: "agent_parameters \<Rightarrow> attrs \<Rightarrow> agent_parameters" where
  "bottom_agent_params ddpg_agent_parameters ddpg_algorithm_parameters =
     (let p0 = HACDDPGAgentParameters ddpg_agent_parameters ddpg_algorithm_parameters;
          p1 = p0\<lparr>memory := \<lparr>max_size = 12000000,
                                hindsight_transitions_per_regular_transition = 4,
                                hindsight_goal_selection_method = Future,
                                memory_goals_space = goals_space\<rparr>\<rparr>
      in p1\<lparr>algorithm := (algorithm p1)(''num_consecutive_training_steps'' \<mapsto> 40)\<rparr>)"

text \<open>
  \<^verbatim>\<open>agents_params = [top_agent_params, bottom_agent_params]\<close>: the graph manager marks the
  first as the highest level and the last as the lowest.
\<close>

definition agents_params :: "agent_parameters \<Rightarrow> attrs \<Rightarrow> agent_parameters list" where
  "agents_params ddpg_agent_parameters ddpg_algorithm_parameters =
     [(top_agent_params ddpg_agent_parameters ddpg_algorithm_parameters)
        \<lparr>is_a_highest_level_agent := True, is_a_lowest_level_agent := False\<rparr>,
      (bottom_agent_params ddpg_agent_parameters ddpg_algorithm_parameters)
        \<lparr>is_a_highest_level_agent := False, is_a_lowest_level_agent := True\<rparr>]"

text \<open>The environment: \<^verbatim>\<open>env_params = Mujoco()\<close> and the attributes the preset sets.\<close>

record simulator_parameters =
  sim_time_limit :: int
  sim_random_goals_instead_of_standing_goal :: bool
  sim_polar_coordinates :: bool
  sim_goal_reaching_thresholds :: vec

record Mujoco =
  level :: string
  additional_simulator_parameters :: simulator_parameters
  frame_skip :: int
  custom_reward_threshold :: int

definition env_params :: Mujoco where
  "env_params =
     \<lparr>level = ''rl_coach.environments.mujoco.pendulum_with_goals:PendulumWithGoals'',
      additional_simulator_parameters =
        \<lparr>sim_time_limit = time_limit,
         sim_random_goals_instead_of_standing_goal = False,
         sim_polar_coordinates = polar_coordinates,
         sim_goal_reaching_thresholds = preset_distance_from_goal_threshold\<rparr>,
      frame_skip = 10,
      custom_reward_threshold = - time_limit + 1\<rparr>"

section \<open>A run of the hierarchy\<close>

text \<open>
  The graph manager and its levels, highest first. The level managers that step the hierarchy
  are not part of the tutorial; what they do to this state is call the two methods above on
  one of the agents, so a run is a list of such calls, made in order. A call that raises ends
  the run.
\<close>

record hierarchy =
  graph :: graph_manager
  levels :: "agent list"

datatype call =
    ChooseAction nat rat state_dict
  | UpdateTransition nat transition

fun do_call :: "(RunPhase \<Rightarrow> state_dict \<Rightarrow> 'a) \<Rightarrow> call \<Rightarrow> hierarchy \<Rightarrow> error + hierarchy" where
  "do_call super_choose_action (ChooseAction i rand curr_state) h =
     (if i < length (levels h) then
        (case choose_action super_choose_action rand (graph h) (levels h ! i) curr_state of
           (gm1, self1, action_info) \<Rightarrow> Inr (h\<lparr>graph := gm1, levels := (levels h)[i := self1]\<rparr>))
      else Inl IndexError)"
| "do_call super_choose_action (UpdateTransition i tr) h =
     (if i < length (levels h) then
        (case update_transition_before_adding_to_replay_buffer (graph h) (levels h ! i) tr of
           Inl e \<Rightarrow> Inl e
         | Inr (self1, tr1) \<Rightarrow> Inr (h\<lparr>levels := (levels h)[i := self1]\<rparr>))
      else Inl IndexError)"

fun run :: "(RunPhase \<Rightarrow> state_dict \<Rightarrow> 'a) \<Rightarrow> call list \<Rightarrow> hierarchy \<Rightarrow> error + hierarchy" where
  "run super_choose_action [] h = Inr h"
| "run super_choose_action (c # cs) h =
     (case do_call super_choose_action c h of
        Inl e \<Rightarrow> Inl e
      | Inr h1 \<Rightarrow> run super_choose_action cs h1)"

text \<open>
  The one kind of call that is not part of a run of the levels below: the highest level
  choosing an action.
\<close>

fun is_top_level_decision :: "hierarchy \<Rightarrow> call \<Rightarrow> bool" where
  "is_top_level_decision h (ChooseAction i rand curr_state) =
     (i < length (levels h) \<and> is_a_highest_level_agent (ap (levels h ! i)))"
| "is_top_level_decision h (UpdateTransition i tr) = False"

section \<open>The hindsight replay buffer\<close>

text \<open>
  Modelled from the spec: the replay buffer with hindsight relabelling (the classes behind
  \<^verbatim>\<open>EpisodicHindsightExperienceReplayParameters\<close> and
  \<^verbatim>\<open>EpisodicHRLHindsightExperienceReplayParameters\<close>, which the preset configures and the
  tutorial does not contain). The buffer holds its transitions in the order they were added,
  each with the number of the episode it belongs to, up to a capacity; the relabel ratio is
  \<^verbatim>\<open>hindsight_transitions_per_regular_transition\<close>. Only the future strategy is modelled,
  the one the spec describes and both agents configure.
\<close>

record HindsightReplayBuffer =
  transitions :: "(nat \<times> transition) list"
  capacity :: nat
  relabel_ratio :: nat
  buffer_goals_space :: GoalsSpace

text \<open>Modelled from the spec: an empty buffer with the configuration of the memory parameters.\<close>

definition new_buffer :: "memory_parameters \<Rightarrow> HindsightReplayBuffer" where
  "new_buffer mp =
     \<lparr>transitions = [], capacity = max_size mp,
      relabel_ratio = hindsight_transitions_per_regular_transition mp,
      buffer_goals_space = memory_goals_space mp\<rparr>"

text \<open>
  Modelled from the spec: \<^verbatim>\<open>add(transition)\<close> appends to the buffer in episode order and
  evicts the oldest entries beyond the capacity.
\<close>

definition buffer_add :: "nat \<Rightarrow> transition \<Rightarrow> HindsightReplayBuffer \<Rightarrow> HindsightReplayBuffer" where
  "buffer_add episode tr b =
     (let ts = transitions b @ [(episode, tr)]
      in b\<lparr>transitions := drop (length ts - capacity b) ts\<rparr>)"

text \<open>
  Modelled from the spec: one relabelled copy of a transition. The goal of the copy (the entry
  \<^verbatim>\<open>desired_goal\<close> of its two states) is the substitute; reward and terminal flag are
  recomputed by \<^verbatim>\<open>reward_for\<close> against it. The stored transition is the argument and is
  not changed.
\<close>

definition substitute_goal :: "GoalsSpace \<Rightarrow> vec \<Rightarrow> transition \<Rightarrow> error + transition" where
  "substitute_goal gs goal tr =
     (let t1 = tr\<lparr>state := (state tr)(''desired_goal'' \<mapsto> goal),
                  next_state := (next_state tr)(''desired_goal'' \<mapsto> goal)\<rparr>
      in case get_reward_for_goal_and_state gs goal (next_state t1) of
           Inl e \<Rightarrow> Inl e
         | Inr (r, reached) \<Rightarrow> Inr (t1\<lparr>reward := r, game_over := reached\<rparr>))"

text \<open>The results of a list of steps, or the first error among them.\<close>

fun sequence :: "(error + 'a) list \<Rightarrow> error + 'a list" where
  "sequence [] = Inr []"
| "sequence (x # xs) =
     (case x of
        Inl e \<Rightarrow> Inl e
      | Inr y \<Rightarrow> (case sequence xs of Inl e \<Rightarrow> Inl e | Inr ys \<Rightarrow> Inr (y # ys)))"

text \<open>
  Modelled from the spec: the transitions a substitute goal for the stored transition \<open>i\<close> is
  drawn from, those "later in the same episode": the transition itself (what it achieved lies
  after its state) and the ones stored after it with its episode number.
\<close>

definition later_in_same_episode :: "HindsightReplayBuffer \<Rightarrow> nat \<Rightarrow> transition list" where
  "later_in_same_episode b i =
     map snd (filter (\<lambda>(episode, tr). episode = fst (transitions b ! i)) (drop i (transitions b)))"

text \<open>
  Modelled from the spec: the relabelled transitions of the stored transition \<open>i\<close>, one per
  draw. \<open>pick i k\<close> is the random number of draw \<open>k\<close>; the substitute goal is the state
  achieved by the transition it selects.
\<close>

definition hindsight_transitions ::
  "(nat \<Rightarrow> nat \<Rightarrow> nat) \<Rightarrow> HindsightReplayBuffer \<Rightarrow> nat \<Rightarrow> error + transition list" where
  "hindsight_transitions pick b i =
     (if i < length (transitions b) then
        (let later = later_in_same_episode b i
         in sequence
              (map (\<lambda>k. case goal_from_state (buffer_goals_space b)
                              (next_state (later ! (pick i k mod length later))) of
                          Inl e \<Rightarrow> Inl e
                        | Inr goal \<Rightarrow>
                            substitute_goal (buffer_goals_space b) goal (snd (transitions b ! i)))
                 [0..<relabel_ratio b]))
      else Inl IndexError)"

text \<open>
  Modelled from the spec: what sampling draws from, the stored transitions followed by the
  relabelled ones of each.
\<close>

definition consumable_set ::
  "(nat \<Rightarrow> nat \<Rightarrow> nat) \<Rightarrow> HindsightReplayBuffer \<Rightarrow> error + transition list" where
  "consumable_set pick b =
     (case sequence (map (hindsight_transitions pick b) [0..<length (transitions b)]) of
        Inl e \<Rightarrow> Inl e
      | Inr hs \<Rightarrow> Inr (map snd (transitions b) @ concat hs))"

section \<open>Example inputs\<close>

text \<open>
  Concrete agents and transitions for the examples below: an agent configured with
  \<^verbatim>\<open>HACDDPGAlgorithmParameters\<close> at a chosen place in the hierarchy, and a raw transition whose
  next state is within the thresholds of the goal \<open>[0, 0, 0]\<close> and far from its action
  \<open>[1, 1, 1]\<close>.
\<close>

definition example_memory :: memory_parameters where
  "example_memory =
     \<lparr>max_size = 10000000, hindsight_transitions_per_regular_transition = 3,
      hindsight_goal_selection_method = Future, memory_goals_space = goals_space\<rparr>"

definition example_ddpg_algorithm_parameters :: attrs where
  "example_ddpg_algorithm_parameters = [''num_consecutive_training_steps'' \<mapsto> 1]"

definition example_ddpg_agent_parameters :: agent_parameters where
  "example_ddpg_agent_parameters =
     \<lparr>algorithm = example_ddpg_algorithm_parameters, memory = example_memory,
      is_a_highest_level_agent = False, is_a_lowest_level_agent = False\<rparr>"

definition example_agent :: "bool \<Rightarrow> bool \<Rightarrow> agent" where
  "example_agent highest lowest =
     \<lparr>ap = \<lparr>algorithm = HACDDPGAlgorithmParameters example_ddpg_algorithm_parameters,
             memory = example_memory,
             is_a_highest_level_agent = highest,
             is_a_lowest_level_agent = lowest\<rparr>,
      sub_goal_testing_rate = 1 / 2,
      phase = TRAIN,
      exploration_policy_phase = TRAIN,
      current_hrl_goal = [0, 0, 0],
      distance_from_goal_signal = [],
      spaces_goal = goals_space\<rparr>"

definition example_transition :: transition where
  "example_transition =
     \<lparr>state = [''observation'' \<mapsto> [1, 0, 0], ''achieved_goal'' \<mapsto> [1, 0, 0]],
      action = [1, 1, 1],
      reward = 7,
      next_state = [''observation'' \<mapsto> [5 / 100, 2 / 100, 1 / 10],
                    ''achieved_goal'' \<mapsto> [5 / 100, 2 / 100, 1 / 10]],
      game_over = False\<rparr>"

definition example_testing :: graph_manager where
  "example_testing = \<lparr>should_test_current_sub_goal = True\<rparr>"

definition example_hierarchy :: hierarchy where
  "example_hierarchy =
     \<lparr>graph = example_testing, levels = [example_agent True False, example_agent False True]\<rparr>"

definition example_calls :: "call list" where
  "example_calls =
     [ChooseAction 1 (9 / 10) (state example_transition),
      UpdateTransition 1 example_transition,
      UpdateTransition 0 example_transition]"

text \<open>A stored step of the lower level from one achieved value to the next.\<close>

definition example_step :: "vec \<Rightarrow> vec \<Rightarrow> transition" where
  "example_step before after =
     \<lparr>state = [''achieved_goal'' \<mapsto> before, ''desired_goal'' \<mapsto> [0, 0, 0]],
      action = [1],
      reward = - 1,
      next_state = [''achieved_goal'' \<mapsto> after, ''desired_goal'' \<mapsto> [0, 0, 0]],
      game_over = False\<rparr>"

definition example_buffer :: HindsightReplayBuffer where
  "example_buffer =
     buffer_add 1 (example_step [1, 1, 1] [1, 1, 2])
       (buffer_add 1 (example_step [2, 2, 2] [1, 1, 1])
          (buffer_add 0 (example_step [1, 0, 0] [5 / 100, 2 / 100, 1 / 10])
             (new_buffer example_memory)))"

section \<open>Evaluation and helper lemmas\<close>

lemmas eval_defs =
  update_transition_before_adding_to_replay_buffer_def get_reward_for_goal_and_state_def
  distance_from_goal_def goal_from_state_def goals_space_def raw_L1_distance_def np_subtract_def
  preset_distance_from_goal_threshold_def example_agent_def example_transition_def
  example_testing_def HACDDPGAlgorithmParameters_def example_memory_def
  example_ddpg_algorithm_parameters_def

lemma get_reward_distance:
  assumes "get_reward_for_goal_and_state gs goal st = Inr (r, b)"
  shows "\<exists>d. distance_from_goal gs goal st = Inr d"
  using assms by (auto simp: get_reward_for_goal_and_state_def split: sum.splits)

lemma update_transition_agent:
  assumes "update_transition_before_adding_to_replay_buffer gm self tr = Inr (self', tr')"
  shows "if is_a_highest_level_agent (ap self) then self' = self
         else (\<exists>d. distance_from_goal (spaces_goal self) (current_hrl_goal self) (next_state tr')
                      = Inr d
                 \<and> self' = self\<lparr>distance_from_goal_signal := distance_from_goal_signal self @ [d]\<rparr>)"
  using assms
  by (auto simp: update_transition_before_adding_to_replay_buffer_def Let_def
      split: if_splits sum.splits prod.splits option.splits)

lemma update_transition_in_place_result:
  "update_transition_before_adding_to_replay_buffer gm self tr =
     (case update_transition_in_place gm self tr of
        ((gm', self', tr'), None) \<Rightarrow> Inr (self', tr')
      | ((gm', self', tr'), Some e) \<Rightarrow> Inl e)"
  by (auto simp: update_transition_before_adding_to_replay_buffer_def
      update_transition_in_place_def Let_def
      split: if_splits sum.splits prod.splits option.splits)

lemma update_transition_ap:
  assumes "update_transition_before_adding_to_replay_buffer gm self tr = Inr (self1, tr1)"
  shows "ap self1 = ap self"
  using update_transition_agent[OF assms] by (auto split: if_splits)

lemma choose_action_ap:
  assumes "choose_action f rand gm self s = (gm1, self1, a)"
  shows "ap self1 = ap self"
  using assms by (auto simp: choose_action_def Let_def split: if_splits)

lemma choose_action_non_top:
  assumes "\<not> is_a_highest_level_agent (ap self)"
  shows "fst (choose_action f rand gm self s) = gm"
  using assms by (simp add: choose_action_def Let_def)

section \<open>Reward shaping\<close>

text \<open>
  C1, amended. At a level that is not the highest, whenever the goal reward of the next state
  is defined: (1) unless the level tests a subgoal of its own that is missed (it is not the
  lowest level, a test is in progress and its action is not reached), the method returns the
  transition with the goal attached to both states, the reward overwritten with the first
  component of \<^verbatim>\<open>get_reward_for_goal_and_state(current_hrl_goal, next_state)\<close> and the
  terminal flag set to the disjunction of the original flag and \<open>sub_goal_reached\<close>; (2) when
  the level does test a subgoal of its own that is missed, the method returns the same
  transition but with the reward \<open>- time_limit\<close>; (3) in every case in which the method
  returns, the terminal flag is that disjunction and the reward is \<open>- time_limit\<close> exactly
  when such a test is missed and the goal reward otherwise; (4) the result never depends on
  the reward the environment gave.
\<close>

theorem non_top_reward_is_goal_reward_unless_miss_penalty:
  assumes nt: "\<not> is_a_highest_level_agent (ap self)"
    and gr: "get_reward_for_goal_and_state (spaces_goal self) (current_hrl_goal self)
               ((next_state tr)(''desired_goal'' \<mapsto> current_hrl_goal self))
             = Inr (goal_reward, sub_goal_reached)"
  shows "(is_a_lowest_level_agent (ap self) \<or> \<not> should_test_current_sub_goal gm \<or>
          get_reward_for_goal_and_state (spaces_goal self) (action tr)
             ((next_state tr)(''desired_goal'' \<mapsto> current_hrl_goal self)) = Inr (r, True)
          \<longrightarrow> (\<exists>self'. update_transition_before_adding_to_replay_buffer gm self tr =
                 Inr (self',
                      tr\<lparr>state := (state tr)(''desired_goal'' \<mapsto> current_hrl_goal self),
                         next_state := (next_state tr)(''desired_goal'' \<mapsto> current_hrl_goal self),
                         reward := goal_reward,
                         game_over := game_over tr \<or> sub_goal_reached\<rparr>)))
       \<and> (\<not> is_a_lowest_level_agent (ap self) \<and> should_test_current_sub_goal gm
          \<and> get_reward_for_goal_and_state (spaces_goal self) (action tr)
               ((next_state tr)(''desired_goal'' \<mapsto> current_hrl_goal self)) = Inr (r, False)
          \<and> algorithm (ap self) ''time_limit'' = Some limit
          \<longrightarrow> (\<exists>self'. update_transition_before_adding_to_replay_buffer gm self tr =
                 Inr (self',
                      tr\<lparr>state := (state tr)(''desired_goal'' \<mapsto> current_hrl_goal self),
                         next_state := (next_state tr)(''desired_goal'' \<mapsto> current_hrl_goal self),
                         reward := - limit,
                         game_over := game_over tr \<or> sub_goal_reached\<rparr>)))
       \<and> (\<forall>self' tr'. update_transition_before_adding_to_replay_buffer gm self tr = Inr (self', tr')
             \<longrightarrow> game_over tr' = (game_over tr \<or> sub_goal_reached)
               \<and> (if \<not> is_a_lowest_level_agent (ap self) \<and> should_test_current_sub_goal gm
                     \<and> (\<exists>r'. get_reward_for_goal_and_state (spaces_goal self) (action tr)
                               ((next_state tr)(''desired_goal'' \<mapsto> current_hrl_goal self))
                             = Inr (r', False))
                  then algorithm (ap self) ''time_limit'' = Some (- reward tr')
                  else reward tr' = goal_reward))
       \<and> (\<forall>x. update_transition_before_adding_to_replay_buffer gm self (tr\<lparr>reward := x\<rparr>) =
               update_transition_before_adding_to_replay_buffer gm self tr)"
proof -
  obtain d where d: "distance_from_goal (spaces_goal self) (current_hrl_goal self)
               ((next_state tr)(''desired_goal'' \<mapsto> current_hrl_goal self)) = Inr d"
    using get_reward_distance[OF gr] by blast
  have no_penalty: "is_a_lowest_level_agent (ap self) \<or> \<not> should_test_current_sub_goal gm \<or>
          get_reward_for_goal_and_state (spaces_goal self) (action tr)
             ((next_state tr)(''desired_goal'' \<mapsto> current_hrl_goal self)) = Inr (r, True)
          \<longrightarrow> (\<exists>self'. update_transition_before_adding_to_replay_buffer gm self tr =
                 Inr (self',
                      tr\<lparr>state := (state tr)(''desired_goal'' \<mapsto> current_hrl_goal self),
                         next_state := (next_state tr)(''desired_goal'' \<mapsto> current_hrl_goal self),
                         reward := goal_reward,
                         game_over := game_over tr \<or> sub_goal_reached\<rparr>))"
    using nt gr d by (auto simp: update_transition_before_adding_to_replay_buffer_def)
  have penalty: "\<not> is_a_lowest_level_agent (ap self) \<and> should_test_current_sub_goal gm
          \<and> get_reward_for_goal_and_state (spaces_goal self) (action tr)
               ((next_state tr)(''desired_goal'' \<mapsto> current_hrl_goal self)) = Inr (r, False)
          \<and> algorithm (ap self) ''time_limit'' = Some limit
          \<longrightarrow> (\<exists>self'. update_transition_before_adding_to_replay_buffer gm self tr =
                 Inr (self',
                      tr\<lparr>state := (state tr)(''desired_goal'' \<mapsto> current_hrl_goal self),
                         next_state := (next_state tr)(''desired_goal'' \<mapsto> current_hrl_goal self),
                         reward := - limit,
                         game_over := game_over tr \<or> sub_goal_reached\<rparr>))"
    using nt gr d by (auto simp: update_transition_before_adding_to_replay_buffer_def)
  have returned: "\<forall>self' tr'.
        update_transition_before_adding_to_replay_buffer gm self tr = Inr (self', tr')
             \<longrightarrow> game_over tr' = (game_over tr \<or> sub_goal_reached)
               \<and> (if \<not> is_a_lowest_level_agent (ap self) \<and> should_test_current_sub_goal gm
                     \<and> (\<exists>r'. get_reward_for_goal_and_state (spaces_goal self) (action tr)
                               ((next_state tr)(''desired_goal'' \<mapsto> current_hrl_goal self))
                             = Inr (r', False))
                  then algorithm (ap self) ''time_limit'' = Some (- reward tr')
                  else reward tr' = goal_reward)"
    using nt gr d
    by (auto simp: update_transition_before_adding_to_replay_buffer_def Let_def
        split: if_splits sum.splits prod.splits option.splits)
  have raw: "\<forall>x. update_transition_before_adding_to_replay_buffer gm self (tr\<lparr>reward := x\<rparr>) =
               update_transition_before_adding_to_replay_buffer gm self tr"
    using nt
    by (auto simp: update_transition_before_adding_to_replay_buffer_def Let_def
        split: if_splits sum.splits prod.splits option.splits)
  from no_penalty penalty returned raw show ?thesis by blast
qed

text \<open>
  At the lowest level, during a test: the example transition leaves with reward \<open>0\<close>, the
  reward of the reached goal, and is terminal.
\<close>

theorem non_top_reward_is_goal_reward_witness:
  "\<exists>self'. update_transition_before_adding_to_replay_buffer example_testing
        (example_agent False True) example_transition =
      Inr (self', example_transition
             \<lparr>state := (state example_transition)(''desired_goal'' \<mapsto> [0, 0, 0]),
              next_state := (next_state example_transition)(''desired_goal'' \<mapsto> [0, 0, 0]),
              reward := 0, game_over := True\<rparr>)"
proof -
  have nt: "\<not> is_a_highest_level_agent (ap (example_agent False True))"
    by (simp add: example_agent_def)
  have gr: "get_reward_for_goal_and_state (spaces_goal (example_agent False True))
              (current_hrl_goal (example_agent False True))
              ((next_state example_transition)
                 (''desired_goal'' \<mapsto> current_hrl_goal (example_agent False True)))
            = Inr (0, True)"
    by (simp add: eval_defs)
  have low: "is_a_lowest_level_agent (ap (example_agent False True))"
    by (simp add: example_agent_def)
  from non_top_reward_is_goal_reward_unless_miss_penalty[OF nt gr,
      where gm = example_testing and r = 0 and limit = 40] low
  show ?thesis by (simp add: example_agent_def)
qed

text \<open>
  The statement without the exception fails at a middle level during a test: the goal
  \<open>[0, 0, 0]\<close> is reached, so the goal reward is \<open>0\<close>, but the action \<open>[1, 1, 1]\<close> is missed
  and the transition leaves with reward \<open>-40\<close>.
\<close>

theorem non_top_reward_not_always_goal_reward:
  "map_sum id (reward \<circ> snd)
     (update_transition_before_adding_to_replay_buffer example_testing
        (example_agent False False) example_transition) = Inr (- 40)
   \<and> map_sum id fst
     (get_reward_for_goal_and_state (spaces_goal (example_agent False False))
        (current_hrl_goal (example_agent False False))
        ((next_state example_transition)
           (''desired_goal'' \<mapsto> current_hrl_goal (example_agent False False)))) = Inr 0"
  by (simp add: eval_defs)

text \<open>
  C2. At a level that is neither the highest nor the lowest, during a test
  (\<open>should_test_current_sub_goal\<close>), when the subgoal the level emitted as its action is not
  reached by the next state, the method returns the transition with reward \<open>- time_limit\<close>
  exactly, whatever the goal reward of the first step was; the goal is attached and the
  terminal flag is set as in the first step.
\<close>

theorem middle_level_miss_penalty_overrides_goal_reward:
  assumes nt: "\<not> is_a_highest_level_agent (ap self)"
    and nb: "\<not> is_a_lowest_level_agent (ap self)"
    and testing: "should_test_current_sub_goal gm"
    and gr: "get_reward_for_goal_and_state (spaces_goal self) (current_hrl_goal self)
               ((next_state tr)(''desired_goal'' \<mapsto> current_hrl_goal self))
             = Inr (goal_reward, sub_goal_reached)"
    and miss: "get_reward_for_goal_and_state (spaces_goal self) (action tr)
               ((next_state tr)(''desired_goal'' \<mapsto> current_hrl_goal self))
             = Inr (r, False)"
    and lim: "algorithm (ap self) ''time_limit'' = Some limit"
  shows "\<exists>self'. update_transition_before_adding_to_replay_buffer gm self tr =
           Inr (self',
                tr\<lparr>state := (state tr)(''desired_goal'' \<mapsto> current_hrl_goal self),
                   next_state := (next_state tr)(''desired_goal'' \<mapsto> current_hrl_goal self),
                   reward := - limit,
                   game_over := game_over tr \<or> sub_goal_reached\<rparr>)"
proof -
  obtain d where d: "distance_from_goal (spaces_goal self) (current_hrl_goal self)
               ((next_state tr)(''desired_goal'' \<mapsto> current_hrl_goal self)) = Inr d"
    using get_reward_distance[OF gr] by blast
  show ?thesis
    using nt nb testing gr miss lim d
    by (simp add: update_transition_before_adding_to_replay_buffer_def)
qed

text \<open>
  The example transition at a middle level with \<open>time_limit = 40\<close>: the goal is reached
  (goal reward \<open>0\<close>), the action is missed, and the reward that leaves is \<open>-40\<close>.
\<close>

theorem middle_level_miss_penalty_witness:
  "\<exists>self'. update_transition_before_adding_to_replay_buffer example_testing
        (example_agent False False) example_transition =
      Inr (self', example_transition
             \<lparr>state := (state example_transition)(''desired_goal'' \<mapsto> [0, 0, 0]),
              next_state := (next_state example_transition)(''desired_goal'' \<mapsto> [0, 0, 0]),
              reward := - 40, game_over := True\<rparr>)"
proof -
  have nt: "\<not> is_a_highest_level_agent (ap (example_agent False False))"
    and nb: "\<not> is_a_lowest_level_agent (ap (example_agent False False))"
    and testing: "should_test_current_sub_goal example_testing"
    and lim: "algorithm (ap (example_agent False False)) ''time_limit'' = Some 40"
    by (simp_all add: eval_defs)
  have gr: "get_reward_for_goal_and_state (spaces_goal (example_agent False False))
              (current_hrl_goal (example_agent False False))
              ((next_state example_transition)
                 (''desired_goal'' \<mapsto> current_hrl_goal (example_agent False False)))
            = Inr (0, True)"
    by (simp add: eval_defs)
  have miss: "get_reward_for_goal_and_state (spaces_goal (example_agent False False))
              (action example_transition)
              ((next_state example_transition)
                 (''desired_goal'' \<mapsto> current_hrl_goal (example_agent False False)))
            = Inr (- 1, False)"
    by (simp add: eval_defs)
  from middle_level_miss_penalty_overrides_goal_reward[OF nt nb testing gr miss lim]
  show ?thesis by (simp add: example_agent_def)
qed

text \<open>
  C9. The miss penalty also applies to the highest level: there no goal is attached and no
  goal reward is computed, and during a test, when the subgoal the level emitted as its action
  is not reached by the next state, the method returns the transition unchanged but for its
  reward, which is \<open>- time_limit\<close>. The agent is unchanged.
\<close>

theorem top_level_miss_penalty:
  assumes "is_a_highest_level_agent (ap self)"
    and "\<not> is_a_lowest_level_agent (ap self)"
    and "should_test_current_sub_goal gm"
    and "get_reward_for_goal_and_state (spaces_goal self) (action tr) (next_state tr)
           = Inr (r, False)"
    and "algorithm (ap self) ''time_limit'' = Some limit"
  shows "update_transition_before_adding_to_replay_buffer gm self tr
           = Inr (self, tr\<lparr>reward := - limit\<rparr>)"
  using assms by (simp add: update_transition_before_adding_to_replay_buffer_def)

theorem top_level_miss_penalty_witness:
  "update_transition_before_adding_to_replay_buffer example_testing
     (example_agent True False) example_transition
   = Inr (example_agent True False, example_transition\<lparr>reward := - 40\<rparr>)"
proof -
  have top: "is_a_highest_level_agent (ap (example_agent True False))"
    and nb: "\<not> is_a_lowest_level_agent (ap (example_agent True False))"
    and testing: "should_test_current_sub_goal example_testing"
    and lim: "algorithm (ap (example_agent True False)) ''time_limit'' = Some 40"
    by (simp_all add: eval_defs)
  have miss: "get_reward_for_goal_and_state (spaces_goal (example_agent True False))
              (action example_transition) (next_state example_transition)
            = Inr (- 1, False)"
    by (simp add: eval_defs)
  from top_level_miss_penalty[OF top nb testing miss lim] show ?thesis .
qed

text \<open>
  C3, amended. The penalty written for a missed subgoal is the negation of the attribute
  \<^verbatim>\<open>time_limit\<close> of the agent's own algorithm parameters, at every level that is not the
  lowest. That attribute is set apart from the environment's step budget:
  \<^verbatim>\<open>HACDDPGAlgorithmParameters\<close> sets it to \<open>40\<close>, and the preset gives the simulator its own
  \<^verbatim>\<open>time_limit\<close> of \<open>1000\<close>. The two agree only when they are configured to.
\<close>

theorem miss_penalty_is_algorithm_time_limit:
  assumes "update_transition_before_adding_to_replay_buffer gm self tr = Inr (self', tr')"
    and "\<not> is_a_lowest_level_agent (ap self)"
    and "should_test_current_sub_goal gm"
    and "get_reward_for_goal_and_state (spaces_goal self) (action tr) (next_state tr')
           = Inr (r, False)"
  shows "algorithm (ap self) ''time_limit'' = Some (- reward tr')
       \<and> HACDDPGAlgorithmParameters ddpg_algorithm_parameters ''time_limit'' = Some 40
       \<and> sim_time_limit (additional_simulator_parameters env_params) = 1000"
proof -
  have "algorithm (ap self) ''time_limit'' = Some (- reward tr')"
    using assms
    by (auto simp: update_transition_before_adding_to_replay_buffer_def Let_def
        split: if_splits sum.splits prod.splits option.splits)
  then show ?thesis
    by (simp add: HACDDPGAlgorithmParameters_def env_params_def time_limit_def)
qed

theorem miss_penalty_is_algorithm_time_limit_witness:
  "algorithm (ap (example_agent True False)) ''time_limit''
     = Some (- reward (example_transition\<lparr>reward := - 40\<rparr>))
   \<and> HACDDPGAlgorithmParameters example_ddpg_algorithm_parameters ''time_limit'' = Some 40
   \<and> sim_time_limit (additional_simulator_parameters env_params) = 1000"
proof -
  have ret: "update_transition_before_adding_to_replay_buffer example_testing
               (example_agent True False) example_transition
             = Inr (example_agent True False, example_transition\<lparr>reward := - 40\<rparr>)"
    by (simp add: eval_defs)
  have nb: "\<not> is_a_lowest_level_agent (ap (example_agent True False))"
    and testing: "should_test_current_sub_goal example_testing"
    by (simp_all add: eval_defs)
  have miss: "get_reward_for_goal_and_state (spaces_goal (example_agent True False))
              (action example_transition) (next_state (example_transition\<lparr>reward := - 40\<rparr>))
            = Inr (- 1, False)"
    by (simp add: eval_defs)
  from miss_penalty_is_algorithm_time_limit[OF ret nb testing miss] show ?thesis .
qed

text \<open>
  With the preset's environment and an agent configured with
  \<^verbatim>\<open>HACDDPGAlgorithmParameters\<close>, the penalty is \<open>-40\<close> while the environment's step budget
  is \<open>1000\<close>.
\<close>

theorem miss_penalty_differs_from_env_time_limit:
  "map_sum id (reward \<circ> snd)
     (update_transition_before_adding_to_replay_buffer example_testing
        (example_agent True False) example_transition) = Inr (- 40)
   \<and> sim_time_limit (additional_simulator_parameters env_params) = 1000
   \<and> map_sum id (reward \<circ> snd)
     (update_transition_before_adding_to_replay_buffer example_testing
        (example_agent True False) example_transition)
     \<noteq> Inr (- of_int (sim_time_limit (additional_simulator_parameters env_params)))"
  by (simp add: eval_defs env_params_def time_limit_def)

text \<open>
  C4, amended. The method is a function of the graph manager's flag, the agent and the
  transition. On every call, whether it returns or raises, what it has written outside the
  transition when it exits is at most one thing: at a level that is not the highest, one
  sample (the distance of the next state from the goal) added to the agent's own signal
  \<^verbatim>\<open>distance_from_goal\<close>, and nothing when computing that distance raises. At the highest
  level the agent is unchanged. The graph manager is unchanged and the action of the
  transition is never written. What the method returns or raises is what
  \<open>update_transition_before_adding_to_replay_buffer\<close> gives.
\<close>

theorem update_transition_frame:
  "case update_transition_in_place gm self tr of
     ((gm', self', tr'), err) \<Rightarrow>
       gm' = gm \<and> action tr' = action tr
       \<and> (if is_a_highest_level_agent (ap self) then self' = self
          else (case distance_from_goal (spaces_goal self) (current_hrl_goal self)
                       ((next_state tr)(''desired_goal'' \<mapsto> current_hrl_goal self)) of
                  Inl e \<Rightarrow> self' = self \<and> err = Some e
                | Inr d \<Rightarrow> self' = self\<lparr>distance_from_goal_signal :=
                                          distance_from_goal_signal self @ [d]\<rparr>))
       \<and> update_transition_before_adding_to_replay_buffer gm self tr =
           (case err of None \<Rightarrow> Inr (self', tr') | Some e \<Rightarrow> Inl e)"
proof -
  have res: "update_transition_before_adding_to_replay_buffer gm self tr =
           (case snd (update_transition_in_place gm self tr) of
              None \<Rightarrow> Inr (snd (fst (update_transition_in_place gm self tr)))
            | Some e \<Rightarrow> Inl e)"
    by (simp add: update_transition_in_place_result split: prod.splits option.splits)
  have frame: "fst (fst (update_transition_in_place gm self tr)) = gm
      \<and> action (snd (snd (fst (update_transition_in_place gm self tr)))) = action tr
      \<and> (if is_a_highest_level_agent (ap self)
         then fst (snd (fst (update_transition_in_place gm self tr))) = self
         else (case distance_from_goal (spaces_goal self) (current_hrl_goal self)
                       ((next_state tr)(''desired_goal'' \<mapsto> current_hrl_goal self)) of
                  Inl e \<Rightarrow> fst (snd (fst (update_transition_in_place gm self tr))) = self
                            \<and> snd (update_transition_in_place gm self tr) = Some e
                | Inr d \<Rightarrow> fst (snd (fst (update_transition_in_place gm self tr)))
                            = self\<lparr>distance_from_goal_signal :=
                                     distance_from_goal_signal self @ [d]\<rparr>))"
    by (auto simp: update_transition_in_place_def Let_def
        split: if_splits sum.splits prod.splits option.splits)
  obtain gm' self' tr' err where
    eq: "update_transition_in_place gm self tr = ((gm', self', tr'), err)"
    by (metis prod.exhaust)
  from res frame show ?thesis
    unfolding eq by (auto split: option.splits sum.splits if_splits)
qed

text \<open>
  A call that raises: a middle level with the algorithm parameters that
  \<^verbatim>\<open>HACDDPGAgentParameters\<close> builds, during a test with a missed subgoal. The read of
  \<^verbatim>\<open>time_limit\<close> raises; by then the sample is in the signal and the transition carries the
  goal, the goal reward and the terminal flag.
\<close>

theorem update_transition_frame_witness:
  "case update_transition_in_place example_testing
          ((example_agent False False)
             \<lparr>ap := HACDDPGAgentParameters example_ddpg_agent_parameters
                      example_ddpg_algorithm_parameters\<rparr>)
          example_transition of
     ((gm', self', tr'), err) \<Rightarrow>
       gm' = example_testing \<and> action tr' = [1, 1, 1]
       \<and> self' = (example_agent False False)
                   \<lparr>ap := HACDDPGAgentParameters example_ddpg_agent_parameters
                            example_ddpg_algorithm_parameters,
                    distance_from_goal_signal := [[5 / 100, 2 / 100, 1 / 10]]\<rparr>
       \<and> tr' = example_transition
                 \<lparr>state := (state example_transition)(''desired_goal'' \<mapsto> [0, 0, 0]),
                  next_state := (next_state example_transition)(''desired_goal'' \<mapsto> [0, 0, 0]),
                  reward := 0, game_over := True\<rparr>
       \<and> err = Some (AttributeError ''time_limit'')"
  using update_transition_frame[where gm = example_testing and tr = example_transition
      and self = "(example_agent False False)
             \<lparr>ap := HACDDPGAgentParameters example_ddpg_agent_parameters
                      example_ddpg_algorithm_parameters\<rparr>"]
  by (simp add: update_transition_in_place_def eval_defs HACDDPGAgentParameters_def
      example_ddpg_agent_parameters_def)

text \<open>
  The statement that no state of the agent is modified fails at the lowest level: the signal
  is empty before the call and holds a sample after it.
\<close>

theorem update_transition_adds_signal_sample:
  "map_sum id (distance_from_goal_signal \<circ> fst)
     (update_transition_before_adding_to_replay_buffer example_testing
        (example_agent False True) example_transition) = Inr [[5 / 100, 2 / 100, 1 / 10]]
   \<and> distance_from_goal_signal (example_agent False True) = []"
  by (simp add: eval_defs)

section \<open>Choosing an action\<close>

text \<open>
  C7. In \<^verbatim>\<open>choose_action\<close>, when the agent's run phase is \<open>TRAIN\<close>: if
  \<open>should_test_current_sub_goal\<close> is true (for the highest level, as it has just drawn it)
  the exploration policy is put in phase \<open>TEST\<close>, otherwise in the agent's own run phase, and
  the action is chosen with the exploration policy in that phase.
\<close>

theorem choose_action_exploration_phase:
  assumes "phase self = TRAIN"
  shows "case choose_action super_choose_action rand gm self curr_state of
           (gm1, self1, action_info) \<Rightarrow>
             exploration_policy_phase self1 =
               (if should_test_current_sub_goal gm1 then TEST else phase self)
             \<and> action_info = super_choose_action (exploration_policy_phase self1) curr_state
             \<and> should_test_current_sub_goal gm1 =
                 (if is_a_highest_level_agent (ap self) then rand < sub_goal_testing_rate self
                  else should_test_current_sub_goal gm)"
  using assms by (simp add: choose_action_def Let_def)

text \<open>
  The highest level with testing rate \<open>1/2\<close> and the draw \<open>1/4\<close>: a test starts and the
  policy is asked in phase \<open>TEST\<close>.
\<close>

theorem choose_action_exploration_phase_witness:
  "case choose_action (\<lambda>ph s. ph) (1 / 4) \<lparr>should_test_current_sub_goal = False\<rparr>
          (example_agent True False) (state example_transition) of
     (gm1, self1, action_info) \<Rightarrow>
       exploration_policy_phase self1 = TEST \<and> action_info = TEST
       \<and> should_test_current_sub_goal gm1"
proof -
  have train: "phase (example_agent True False) = TRAIN"
    by (simp add: example_agent_def)
  from choose_action_exploration_phase[OF train,
      where super_choose_action = "\<lambda>ph s. ph" and rand = "1 / 4"
        and gm = "\<lparr>should_test_current_sub_goal = False\<rparr>"
        and curr_state = "state example_transition"]
  show ?thesis
    by (simp add: example_agent_def split: prod.splits)
qed

section \<open>The flag of the subgoal test\<close>

lemma do_call_aps:
  assumes "do_call f c h = Inr h1"
  shows "map ap (levels h1) = map ap (levels h)"
proof (cases c)
  case (ChooseAction i rand s)
  with assms show ?thesis
    by (auto simp: map_update list_update_same_conv dest: choose_action_ap
        split: if_splits prod.splits)
next
  case (UpdateTransition i tr)
  with assms show ?thesis
    by (auto simp: map_update list_update_same_conv dest: update_transition_ap
        split: if_splits prod.splits sum.splits)
qed

lemma is_top_level_decision_cong:
  assumes "map ap (levels h1) = map ap (levels h)"
  shows "is_top_level_decision h1 c = is_top_level_decision h c"
proof -
  have len: "length (levels h1) = length (levels h)"
    using assms by (metis length_map)
  have nth: "\<And>i. i < length (levels h) \<Longrightarrow> ap (levels h1 ! i) = ap (levels h ! i)"
    using assms len by (metis nth_map)
  show ?thesis by (cases c) (auto simp: len nth)
qed

lemma do_call_flag:
  assumes "do_call f c h = Inr h1" and "\<not> is_top_level_decision h c"
  shows "should_test_current_sub_goal (graph h1) = should_test_current_sub_goal (graph h)"
proof (cases c)
  case (ChooseAction i rand s)
  with assms show ?thesis
    by (auto simp: choose_action_def Let_def split: if_splits prod.splits)
next
  case (UpdateTransition i tr)
  with assms show ?thesis
    by (auto split: if_splits prod.splits sum.splits)
qed

lemma run_flag:
  assumes "run f cs h = Inr h1" and "\<forall>c\<in>set cs. \<not> is_top_level_decision h c"
  shows "should_test_current_sub_goal (graph h1) = should_test_current_sub_goal (graph h)"
  using assms
proof (induction cs arbitrary: h)
  case Nil
  then show ?case by simp
next
  case (Cons c cs)
  from Cons.prems(1) obtain h2 where h2: "do_call f c h = Inr h2" and r: "run f cs h2 = Inr h1"
    by (auto split: sum.splits)
  have "\<forall>c\<in>set cs. \<not> is_top_level_decision h2 c"
    using Cons.prems(2) is_top_level_decision_cong[OF do_call_aps[OF h2]] by simp
  from Cons.IH[OF r this] do_call_flag[OF h2] Cons.prems(2)
  show ?case by simp
qed

text \<open>
  C6. The flag \<open>should_test_current_sub_goal\<close> is written only when the highest level
  chooses an action: \<^verbatim>\<open>choose_action\<close> of any other level returns the graph manager as it
  found it, and a call that changes the flag is a decision of the highest level. Hence
  throughout a run of the levels below (any sequence of calls none of which is the highest
  level choosing an action), after every number of calls, the flag has the value it had when
  the run started.
\<close>

theorem should_test_flag_written_only_by_top_level:
  "(\<not> is_a_highest_level_agent (ap self) \<longrightarrow>
      fst (choose_action super_choose_action rand gm self curr_state) = gm)
   \<and> (do_call super_choose_action c h = Inr h1
        \<and> should_test_current_sub_goal (graph h1) \<noteq> should_test_current_sub_goal (graph h)
      \<longrightarrow> is_top_level_decision h c)
   \<and> ((\<forall>c\<in>set cs. \<not> is_top_level_decision h c) \<and> run super_choose_action (take n cs) h = Inr h2
      \<longrightarrow> should_test_current_sub_goal (graph h2) = should_test_current_sub_goal (graph h))"
proof -
  have "\<forall>c\<in>set (take n cs). \<not> is_top_level_decision h c"
    if "\<forall>c\<in>set cs. \<not> is_top_level_decision h c"
    using that by (meson in_set_takeD)
  then show ?thesis
    using choose_action_non_top do_call_flag run_flag by blast
qed

text \<open>
  A run of the lower level in the two-level hierarchy during a test: the lowest level chooses
  an action, its transition is shaped, then the transition of the highest level. The run
  completes and the flag is still set.
\<close>

theorem should_test_flag_witness:
  "fst (choose_action (\<lambda>ph s. ph) (9 / 10) example_testing (example_agent False True)
          (state example_transition)) = example_testing
   \<and> (\<exists>h2. run (\<lambda>ph s. ph) example_calls example_hierarchy = Inr h2
          \<and> should_test_current_sub_goal (graph h2)
            = should_test_current_sub_goal (graph example_hierarchy))"
proof -
  have lower: "\<forall>c\<in>set example_calls. \<not> is_top_level_decision example_hierarchy c"
    by (simp add: example_calls_def example_hierarchy_def example_agent_def)
  have nt: "\<not> is_a_highest_level_agent (ap (example_agent False True))"
    by (simp add: example_agent_def)
  obtain h2 where ret: "run (\<lambda>ph s. ph) (take 3 example_calls) example_hierarchy = Inr h2"
    by (simp add: example_calls_def example_hierarchy_def eval_defs choose_action_def)
  from should_test_flag_written_only_by_top_level[where self = "example_agent False True"
      and super_choose_action = "\<lambda>ph s. ph" and rand = "9 / 10" and gm = example_testing
      and curr_state = "state example_transition" and cs = example_calls
      and h = example_hierarchy and n = 3 and ?h2.0 = h2] nt lower ret
  show ?thesis by (simp add: example_calls_def)
qed

section \<open>The goal space of the preset\<close>

text \<open>
  C8. With the preset's goal space (distance \<open>|goal - state|\<close> per dimension, thresholds
  \<open>[0.075, 0.075, 0.75]\<close>): for the goal \<open>[0, 0, 0]\<close> and the achieved state
  \<open>[0.05, 0.02, 0.1]\<close> the reward function returns \<open>reached = True\<close> and the reward of
  success, \<^verbatim>\<open>goal_reaching_reward = 0\<close>, not \<^verbatim>\<open>default_reward = -1\<close>.
\<close>

theorem reward_for_scenario_reached:
  "get_reward_for_goal_and_state goals_space [0, 0, 0]
     [''achieved_goal'' \<mapsto> [5 / 100, 2 / 100, 1 / 10]]
     = Inr (goal_reaching_reward (reward_type goals_space), True)
   \<and> distance_from_goal goals_space [0, 0, 0]
       [''achieved_goal'' \<mapsto> [5 / 100, 2 / 100, 1 / 10]] = Inr [5 / 100, 2 / 100, 1 / 10]
   \<and> distance_from_goal_threshold (reward_type goals_space) = [75 / 1000, 75 / 1000, 75 / 100]
   \<and> goal_reaching_reward (reward_type goals_space) = 0
   \<and> default_reward (reward_type goals_space) = - 1"
  by (simp add: eval_defs)

section \<open>The parameters of the agents\<close>

text \<open>
  C10. \<^verbatim>\<open>HACDDPGAgentParameters\<close> sets its algorithm parameters to a plain
  \<^verbatim>\<open>DDPGAlgorithmParameters\<close>. The attributes \<^verbatim>\<open>sub_goal_testing_rate = 0.5\<close> and
  \<^verbatim>\<open>time_limit = 40\<close> that \<^verbatim>\<open>HACDDPGAlgorithmParameters\<close> adds (they are not attributes of
  the plain class) are therefore absent from it, and from the parameters of both agents of the
  preset. Constructing the agent, which reads \<^verbatim>\<open>sub_goal_testing_rate\<close>, raises
  \<^verbatim>\<open>AttributeError\<close>; so does applying the miss penalty, which reads \<^verbatim>\<open>time_limit\<close>, for
  any agent with such algorithm parameters.
\<close>

theorem hac_defaults_absent_from_agent_parameters:
  assumes "ddpg_algorithm_parameters ''sub_goal_testing_rate'' = None"
    and "ddpg_algorithm_parameters ''time_limit'' = None"
  shows "algorithm (HACDDPGAgentParameters ddpg_agent_parameters ddpg_algorithm_parameters)
           = ddpg_algorithm_parameters
       \<and> HACDDPGAlgorithmParameters ddpg_algorithm_parameters ''sub_goal_testing_rate''
           = Some (1 / 2)
       \<and> HACDDPGAlgorithmParameters ddpg_algorithm_parameters ''time_limit'' = Some 40
       \<and> (\<forall>params \<in> insert (HACDDPGAgentParameters ddpg_agent_parameters ddpg_algorithm_parameters)
                       (set (agents_params ddpg_agent_parameters ddpg_algorithm_parameters)).
             algorithm params ''sub_goal_testing_rate'' = None
             \<and> algorithm params ''time_limit'' = None
             \<and> HACDDPGAgent_init ddpg_agent params = Inl (AttributeError ''sub_goal_testing_rate''))
       \<and> (algorithm (ap self) ''time_limit'' = None
            \<and> \<not> is_a_lowest_level_agent (ap self) \<and> should_test_current_sub_goal gm
            \<and> (is_a_highest_level_agent (ap self)
                 \<or> get_reward_for_goal_and_state (spaces_goal self) (current_hrl_goal self)
                      ((next_state tr)(''desired_goal'' \<mapsto> current_hrl_goal self)) = Inr (g, b))
            \<and> get_reward_for_goal_and_state (spaces_goal self) (action tr)
                 (if is_a_highest_level_agent (ap self) then next_state tr
                  else (next_state tr)(''desired_goal'' \<mapsto> current_hrl_goal self)) = Inr (r, False)
          \<longrightarrow> update_transition_before_adding_to_replay_buffer gm self tr
                = Inl (AttributeError ''time_limit''))"
proof -
  have params: "\<forall>params \<in> insert (HACDDPGAgentParameters ddpg_agent_parameters ddpg_algorithm_parameters)
                       (set (agents_params ddpg_agent_parameters ddpg_algorithm_parameters)).
             algorithm params ''sub_goal_testing_rate'' = None
             \<and> algorithm params ''time_limit'' = None
             \<and> HACDDPGAgent_init ddpg_agent params = Inl (AttributeError ''sub_goal_testing_rate'')"
    using assms
    by (simp add: HACDDPGAgentParameters_def HACDDPGAgent_init_def agents_params_def
        top_agent_params_def bottom_agent_params_def Let_def)
  have penalty: "update_transition_before_adding_to_replay_buffer gm self tr
                = Inl (AttributeError ''time_limit'')"
    if none: "algorithm (ap self) ''time_limit'' = None"
      and nb: "\<not> is_a_lowest_level_agent (ap self)"
      and testing: "should_test_current_sub_goal gm"
      and step1: "is_a_highest_level_agent (ap self)
                 \<or> get_reward_for_goal_and_state (spaces_goal self) (current_hrl_goal self)
                      ((next_state tr)(''desired_goal'' \<mapsto> current_hrl_goal self)) = Inr (g, b)"
      and miss: "get_reward_for_goal_and_state (spaces_goal self) (action tr)
                 (if is_a_highest_level_agent (ap self) then next_state tr
                  else (next_state tr)(''desired_goal'' \<mapsto> current_hrl_goal self)) = Inr (r, False)"
  proof (cases "is_a_highest_level_agent (ap self)")
    case True
    with none nb testing miss show ?thesis
      by (simp add: update_transition_before_adding_to_replay_buffer_def)
  next
    case False
    with step1 have gr: "get_reward_for_goal_and_state (spaces_goal self) (current_hrl_goal self)
                      ((next_state tr)(''desired_goal'' \<mapsto> current_hrl_goal self)) = Inr (g, b)"
      by simp
    then obtain d where "distance_from_goal (spaces_goal self) (current_hrl_goal self)
               ((next_state tr)(''desired_goal'' \<mapsto> current_hrl_goal self)) = Inr d"
      using get_reward_distance by blast
    with False none nb testing miss gr show ?thesis
      by (simp add: update_transition_before_adding_to_replay_buffer_def)
  qed
  have first: "algorithm (HACDDPGAgentParameters ddpg_agent_parameters ddpg_algorithm_parameters)
           = ddpg_algorithm_parameters
       \<and> HACDDPGAlgorithmParameters ddpg_algorithm_parameters ''sub_goal_testing_rate''
           = Some (1 / 2)
       \<and> HACDDPGAlgorithmParameters ddpg_algorithm_parameters ''time_limit'' = Some 40"
    by (simp add: HACDDPGAgentParameters_def HACDDPGAlgorithmParameters_def)
  from first params penalty show ?thesis by blast
qed

text \<open>
  With example values for what the plain DDPG classes define: the agent cannot be constructed
  from the parameters of the preset's highest level, and an agent that had them would raise on
  a missed subgoal.
\<close>

theorem hac_defaults_absent_witness:
  "algorithm (HACDDPGAgentParameters example_ddpg_agent_parameters
       example_ddpg_algorithm_parameters) ''time_limit'' = None
   \<and> HACDDPGAgent_init (example_agent True False)
        (hd (agents_params example_ddpg_agent_parameters example_ddpg_algorithm_parameters))
       = Inl (AttributeError ''sub_goal_testing_rate'')
   \<and> update_transition_before_adding_to_replay_buffer example_testing
        ((example_agent True False)
           \<lparr>ap := (hd (agents_params example_ddpg_agent_parameters
                        example_ddpg_algorithm_parameters))\<rparr>)
        example_transition
       = Inl (AttributeError ''time_limit'')"
proof -
  have a1: "example_ddpg_algorithm_parameters ''sub_goal_testing_rate'' = None"
    and a2: "example_ddpg_algorithm_parameters ''time_limit'' = None"
    by (simp_all add: example_ddpg_algorithm_parameters_def)
  define top where "top = (example_agent True False)
           \<lparr>ap := (hd (agents_params example_ddpg_agent_parameters
                        example_ddpg_algorithm_parameters))\<rparr>"
  have pre: "algorithm (ap top) ''time_limit'' = None"
      "\<not> is_a_lowest_level_agent (ap top)" "should_test_current_sub_goal example_testing"
      "is_a_highest_level_agent (ap top)"
    by (simp_all add: top_def agents_params_def top_agent_params_def HACDDPGAgentParameters_def
        example_ddpg_algorithm_parameters_def example_testing_def Let_def)
  have miss: "get_reward_for_goal_and_state (spaces_goal top) (action example_transition)
                 (if is_a_highest_level_agent (ap top) then next_state example_transition
                  else (next_state example_transition)(''desired_goal'' \<mapsto> current_hrl_goal top))
               = Inr (- 1, False)"
    by (simp add: top_def agents_params_def eval_defs)
  from hac_defaults_absent_from_agent_parameters[OF a1 a2,
      where ddpg_agent_parameters = example_ddpg_agent_parameters
        and ddpg_agent = "example_agent True False" and self = top and gm = example_testing
        and tr = example_transition and r = "- 1"] pre miss a1 a2
  show ?thesis
    by (simp add: top_def agents_params_def)
qed

section \<open>Hindsight relabelling\<close>

lemma sequence_Inr: "sequence xs = Inr ys \<Longrightarrow> xs = map Inr ys"
  by (induction xs arbitrary: ys) (auto split: sum.splits)

lemma sequence_map_Inr: "sequence (map Inr ys) = Inr ys"
  by (induction ys) auto

lemma later_nonempty:
  assumes "i < length (transitions b)"
  shows "later_in_same_episode b i \<noteq> []"
proof -
  have "transitions b ! i \<in> set (drop i (transitions b))"
    using assms by (metis Cons_nth_drop_Suc list.set_intros(1))
  then have "transitions b ! i \<in> set (filter (\<lambda>(episode, tr). episode = fst (transitions b ! i)) (drop i (transitions b)))"
    by (auto simp: case_prod_beta)
  then show ?thesis
    unfolding later_in_same_episode_def by (metis empty_iff list.set(1) map_is_Nil_conv)
qed

lemma later_member:
  assumes "c \<in> set (later_in_same_episode b i)"
  shows "\<exists>j. i \<le> j \<and> j < length (transitions b) \<and> transitions b ! j = (fst (transitions b ! i), c)"
proof -
  from assms have "(fst (transitions b ! i), c) \<in> set (drop i (transitions b))"
    unfolding later_in_same_episode_def by auto
  then obtain k where k: "k < length (drop i (transitions b))"
      "drop i (transitions b) ! k = (fst (transitions b ! i), c)"
    by (metis in_set_conv_nth)
  then have "i + k < length (transitions b)" "transitions b ! (i + k) = (fst (transitions b ! i), c)"
    by auto
  then show ?thesis by (metis le_add1)
qed

lemma hindsight_transitions_props:
  assumes ok: "hindsight_transitions pick b i = Inr hs"
  shows "i < length (transitions b) \<and> length hs = relabel_ratio b \<and>
         (\<forall>t\<in>set hs. \<exists>j goal.
             i \<le> j \<and> j < length (transitions b)
             \<and> fst (transitions b ! j) = fst (transitions b ! i)
             \<and> goal_from_state (buffer_goals_space b) (next_state (snd (transitions b ! j))) = Inr goal
             \<and> substitute_goal (buffer_goals_space b) goal (snd (transitions b ! i)) = Inr t)"
proof -
  have i: "i < length (transitions b)"
    using ok by (auto simp: hindsight_transitions_def split: if_splits)
  define later where "later = later_in_same_episode b i"
  define gen where "gen = (\<lambda>k. case goal_from_state (buffer_goals_space b)
                              (next_state (later ! (pick i k mod length later))) of
                          Inl e \<Rightarrow> Inl e
                        | Inr goal \<Rightarrow>
                            substitute_goal (buffer_goals_space b) goal (snd (transitions b ! i)))"
  have "sequence (map gen [0..<relabel_ratio b]) = Inr hs"
    using ok i by (simp add: hindsight_transitions_def later_def gen_def Let_def)
  then have m: "map gen [0..<relabel_ratio b] = map Inr hs"
    by (rule sequence_Inr)
  then have len: "length hs = relabel_ratio b"
    by (metis length_map length_upt minus_nat.diff_0)
  have ne: "later \<noteq> []" using later_nonempty[OF i] by (simp add: later_def)
  have each: "\<exists>j goal.
             i \<le> j \<and> j < length (transitions b)
             \<and> fst (transitions b ! j) = fst (transitions b ! i)
             \<and> goal_from_state (buffer_goals_space b) (next_state (snd (transitions b ! j))) = Inr goal
             \<and> substitute_goal (buffer_goals_space b) goal (snd (transitions b ! i)) = Inr t"
    if t: "t \<in> set hs" for t
  proof -
    from t obtain k where k: "k < length hs" "hs ! k = t" by (metis in_set_conv_nth)
    have "map gen [0..<relabel_ratio b] ! k = map Inr hs ! k" using m by simp
    then have g: "gen k = Inr t" using k len by simp
    define c where "c = later ! (pick i k mod length later)"
    have "c \<in> set later" using ne by (simp add: c_def)
    then obtain j where j: "i \<le> j" "j < length (transitions b)"
        "transitions b ! j = (fst (transitions b ! i), c)"
      using later_member[of c b i] by (auto simp: later_def)
    from g obtain goal where "goal_from_state (buffer_goals_space b) (next_state c) = Inr goal"
        "substitute_goal (buffer_goals_space b) goal (snd (transitions b ! i)) = Inr t"
      by (auto simp: gen_def c_def split: sum.splits)
    with j show ?thesis by (intro exI[of _ j] exI[of _ goal]) simp
  qed
  from i len each show ?thesis by blast
qed

lemma sequence_all_Inr:
  assumes "\<forall>x\<in>set xs. \<exists>y. x = Inr y"
  shows "\<exists>ys. sequence xs = Inr ys"
  using assms by (induction xs) auto

lemma later_subset:
  assumes "c \<in> set (later_in_same_episode b i)"
  shows "\<exists>e. (e, c) \<in> set (transitions b)"
proof -
  from assms have "(fst (transitions b ! i), c) \<in> set (drop i (transitions b))"
    unfolding later_in_same_episode_def by auto
  then have "(fst (transitions b ! i), c) \<in> set (transitions b)"
    by (rule in_set_dropD)
  then show ?thesis by blast
qed

lemma hindsight_transitions_succeeds:
  assumes wf: "\<forall>(e, t)\<in>set (transitions b). \<forall>(e', c)\<in>set (transitions b).
                 \<exists>goal t'. goal_from_state (buffer_goals_space b) (next_state c) = Inr goal
                   \<and> substitute_goal (buffer_goals_space b) goal t = Inr t'"
    and i: "i < length (transitions b)"
  shows "\<exists>hs. hindsight_transitions pick b i = Inr hs"
proof -
  define later where "later = later_in_same_episode b i"
  define gen where "gen = (\<lambda>k. case goal_from_state (buffer_goals_space b)
                              (next_state (later ! (pick i k mod length later))) of
                          Inl e \<Rightarrow> Inl e
                        | Inr goal \<Rightarrow>
                            substitute_goal (buffer_goals_space b) goal (snd (transitions b ! i)))"
  have ne: "later \<noteq> []" using later_nonempty[OF i] by (simp add: later_def)
  have orig: "(fst (transitions b ! i), snd (transitions b ! i)) \<in> set (transitions b)"
    using i by simp
  have "\<exists>y. gen k = Inr y" for k
  proof -
    have "later ! (pick i k mod length later) \<in> set (later_in_same_episode b i)"
      using ne by (simp add: later_def)
    then obtain e where "(e, later ! (pick i k mod length later)) \<in> set (transitions b)"
      using later_subset by blast
    with wf orig show ?thesis
      by (fastforce simp: gen_def split: sum.splits)
  qed
  then have "\<exists>hs. sequence (map gen [0..<relabel_ratio b]) = Inr hs"
    by (intro sequence_all_Inr) auto
  then show ?thesis
    using i by (simp add: hindsight_transitions_def later_def gen_def Let_def)
qed

lemma substitute_goal_result:
  assumes "substitute_goal gs goal tr = Inr t"
  shows "\<exists>r reached.
           get_reward_for_goal_and_state gs goal ((next_state tr)(''desired_goal'' \<mapsto> goal))
             = Inr (r, reached)
         \<and> t = tr\<lparr>state := (state tr)(''desired_goal'' \<mapsto> goal),
                  next_state := (next_state tr)(''desired_goal'' \<mapsto> goal),
                  reward := r, game_over := reached\<rparr>"
  using assms by (auto simp: substitute_goal_def Let_def split: sum.splits)

lemma concat_const_length:
  assumes "\<forall>h\<in>set hs. length h = r"
  shows "length (concat hs) = length hs * r"
  using assms by (induction hs) auto

text \<open>
  C5. In a buffer whose stored transitions can be relabelled (every stored next state holds an
  achieved value, and the reward of any stored transition against any stored achieved value
  is defined), the consumable set is the stored transitions, unchanged and in order, followed
  by the relabelled ones; every stored transition has exactly \<open>relabel_ratio\<close> relabelled
  transitions, no fewer and no more; each of them is the stored transition with a substitute
  goal that a transition of the same episode, stored at or after it, achieved, and with
  reward and terminal flag recomputed by \<^verbatim>\<open>get_reward_for_goal_and_state\<close> against that goal.
\<close>

theorem hindsight_exactly_relabel_ratio:
  assumes wf: "\<forall>(e, t)\<in>set (transitions b). \<forall>(e', c)\<in>set (transitions b).
                 \<exists>goal t'. goal_from_state (buffer_goals_space b) (next_state c) = Inr goal
                   \<and> substitute_goal (buffer_goals_space b) goal t = Inr t'"
  shows "\<exists>hs. consumable_set pick b = Inr (map snd (transitions b) @ concat hs)
           \<and> length hs = length (transitions b)
           \<and> length (concat hs) = length (transitions b) * relabel_ratio b
           \<and> (\<forall>i<length (transitions b).
                hindsight_transitions pick b i = Inr (hs ! i)
                \<and> length (hs ! i) = relabel_ratio b
                \<and> (\<forall>t\<in>set (hs ! i). \<exists>j goal r reached.
                      i \<le> j \<and> j < length (transitions b)
                      \<and> fst (transitions b ! j) = fst (transitions b ! i)
                      \<and> next_state (snd (transitions b ! j)) (goal_name (buffer_goals_space b)) = Some goal
                      \<and> get_reward_for_goal_and_state (buffer_goals_space b) goal
                           ((next_state (snd (transitions b ! i)))(''desired_goal'' \<mapsto> goal))
                         = Inr (r, reached)
                      \<and> t = (snd (transitions b ! i))
                             \<lparr>state := (state (snd (transitions b ! i)))(''desired_goal'' \<mapsto> goal),
                              next_state := (next_state (snd (transitions b ! i)))(''desired_goal'' \<mapsto> goal),
                              reward := r, game_over := reached\<rparr>))"
proof -
  define n where "n = length (transitions b)"
  have "\<forall>x\<in>set (map (hindsight_transitions pick b) [0..<n]). \<exists>y. x = Inr y"
    using hindsight_transitions_succeeds[OF wf] by (auto simp: n_def)
  then obtain hs where hs: "sequence (map (hindsight_transitions pick b) [0..<n]) = Inr hs"
    using sequence_all_Inr by blast
  then have m: "map (hindsight_transitions pick b) [0..<n] = map Inr hs"
    by (rule sequence_Inr)
  then have len: "length hs = n"
    by (metis length_map length_upt minus_nat.diff_0)
  have at: "hindsight_transitions pick b i = Inr (hs ! i)" if "i < n" for i
  proof -
    have "map (hindsight_transitions pick b) [0..<n] ! i = map Inr hs ! i" using m by simp
    then show ?thesis using that len by simp
  qed
  have cs: "consumable_set pick b = Inr (map snd (transitions b) @ concat hs)"
    using hs by (simp add: consumable_set_def n_def)
  have each: "length (hs ! i) = relabel_ratio b
                \<and> (\<forall>t\<in>set (hs ! i). \<exists>j goal r reached.
                      i \<le> j \<and> j < length (transitions b)
                      \<and> fst (transitions b ! j) = fst (transitions b ! i)
                      \<and> next_state (snd (transitions b ! j)) (goal_name (buffer_goals_space b)) = Some goal
                      \<and> get_reward_for_goal_and_state (buffer_goals_space b) goal
                           ((next_state (snd (transitions b ! i)))(''desired_goal'' \<mapsto> goal))
                         = Inr (r, reached)
                      \<and> t = (snd (transitions b ! i))
                             \<lparr>state := (state (snd (transitions b ! i)))(''desired_goal'' \<mapsto> goal),
                              next_state := (next_state (snd (transitions b ! i)))(''desired_goal'' \<mapsto> goal),
                              reward := r, game_over := reached\<rparr>)"
    if i: "i < n" for i
  proof -
    note p = hindsight_transitions_props[OF at[OF i]]
    have "\<exists>j goal r reached.
                      i \<le> j \<and> j < length (transitions b)
                      \<and> fst (transitions b ! j) = fst (transitions b ! i)
                      \<and> next_state (snd (transitions b ! j)) (goal_name (buffer_goals_space b)) = Some goal
                      \<and> get_reward_for_goal_and_state (buffer_goals_space b) goal
                           ((next_state (snd (transitions b ! i)))(''desired_goal'' \<mapsto> goal))
                         = Inr (r, reached)
                      \<and> t = (snd (transitions b ! i))
                             \<lparr>state := (state (snd (transitions b ! i)))(''desired_goal'' \<mapsto> goal),
                              next_state := (next_state (snd (transitions b ! i)))(''desired_goal'' \<mapsto> goal),
                              reward := r, game_over := reached\<rparr>"
      if t: "t \<in> set (hs ! i)" for t
    proof -
      from p t obtain j goal where j: "i \<le> j" "j < length (transitions b)"
          "fst (transitions b ! j) = fst (transitions b ! i)"
          "goal_from_state (buffer_goals_space b) (next_state (snd (transitions b ! j))) = Inr goal"
          "substitute_goal (buffer_goals_space b) goal (snd (transitions b ! i)) = Inr t"
        by blast
      from j(4) have g: "next_state (snd (transitions b ! j)) (goal_name (buffer_goals_space b)) = Some goal"
        by (auto simp: goal_from_state_def split: option.splits)
      from substitute_goal_result[OF j(5)] j(1,2,3) g show ?thesis by blast
    qed
    with p show ?thesis by blast
  qed
  have "\<forall>h\<in>set hs. length h = relabel_ratio b"
    using each len by (metis in_set_conv_nth)
  then have total: "length (concat hs) = length (transitions b) * relabel_ratio b"
    using concat_const_length len n_def by metis
  from cs len total at each show ?thesis
    unfolding n_def by blast
qed


text \<open>
  A buffer with the memory configuration of the preset's highest level (ratio \<open>3\<close>) after
  one transition of episode \<open>0\<close> and two of episode \<open>1\<close>: the consumable set has the three
  stored transitions and nine relabelled ones.
\<close>

theorem hindsight_exactly_relabel_ratio_witness:
  "\<exists>hs. consumable_set (\<lambda>i k. i + k) example_buffer
           = Inr (map snd (transitions example_buffer) @ concat hs)
        \<and> length hs = 3 \<and> length (concat hs) = 9
        \<and> relabel_ratio example_buffer = 3"
proof -
  have ts: "transitions example_buffer =
              [(0, example_step [1, 0, 0] [5 / 100, 2 / 100, 1 / 10]),
               (1, example_step [2, 2, 2] [1, 1, 1]),
               (1, example_step [1, 1, 1] [1, 1, 2])]"
    and gs: "buffer_goals_space example_buffer = goals_space"
    and ratio: "relabel_ratio example_buffer = 3"
    by (simp_all add: example_buffer_def buffer_add_def new_buffer_def example_memory_def Let_def)
  have wf: "\<forall>(e, t)\<in>set (transitions example_buffer). \<forall>(e', c)\<in>set (transitions example_buffer).
                 \<exists>goal t'. goal_from_state (buffer_goals_space example_buffer) (next_state c) = Inr goal
                   \<and> substitute_goal (buffer_goals_space example_buffer) goal t = Inr t'"
    unfolding ts gs
    by (simp add: example_step_def substitute_goal_def eval_defs Let_def)
  from hindsight_exactly_relabel_ratio[OF wf, of "\<lambda>i k. i + k"] ts ratio
  show ?thesis by auto
qed

end
